theory Spec2Isabelle
  imports Main "HOL-Library.Word" "HOL-Library.Monad_Syntax"
begin

unbundle bit_operations_syntax

section \<open>The WebAssembly engine: constants and data\<close>

text \<open>
  Source: \<^verbatim>\<open>src/include/mutable/backend/WebAssembly.hpp\<close>, \<^verbatim>\<open>struct WasmEngine\<close>.
  \<^verbatim>\<open>std::size_t\<close> and \<^verbatim>\<open>unsigned long\<close> are 64-bit words (the source shifts \<^verbatim>\<open>1UL\<close> by 32),
  \<^verbatim>\<open>unsigned\<close> and \<^verbatim>\<open>uint32_t\<close> are 32-bit words, the enum \<^verbatim>\<open>config_t : uint64_t\<close> is a 64-bit
  word.
\<close>

type_synonym size_t = "64 word"
type_synonym config_t = "64 word"

definition WASM_PAGE_SIZE :: size_t where
  "WASM_PAGE_SIZE = push_bit 16 1"

definition WASM_MAX_MEMORY :: size_t where
  "WASM_MAX_MEMORY = push_bit 32 1 - push_bit 16 1"

definition WASM_ALIGNMENT :: size_t where
  "WASM_ALIGNMENT = 8"

definition TRAP_GUARD_PAGES :: config_t where
  "TRAP_GUARD_PAGES = 1"

text \<open>
  Modelled from the spec: the type \<^verbatim>\<open>memory::AddressSpace\<close> (declared in
  \<^verbatim>\<open>mutable/util/memory.hpp\<close>, which is not among the sources). The spec describes an owned
  byte buffer of fixed capacity into which regions are mapped and in which guard pages are
  marked inaccessible. The model keeps the capacity, the mapped regions (offset and length in
  bytes, oldest first) and the offsets of the pages marked inaccessible (oldest first).
\<close>

record AddressSpace =
  as_size :: size_t
  mapped :: "(32 word \<times> nat) list"
  guard_pages :: "32 word list"

definition AddressSpace_init :: "size_t \<Rightarrow> AddressSpace" where
  "AddressSpace_init n = \<lparr> as_size = n, mapped = [], guard_pages = [] \<rparr>"

text \<open>
  \<^verbatim>\<open>struct WasmContext\<close>. The fields \<^verbatim>\<open>config_\<close> and \<^verbatim>\<open>id\<close> are written \<open>config'\<close> and
  \<open>id'\<close> (the first is not a name Isabelle accepts, the second is the identity function of
  HOL). \<^verbatim>\<open>plan\<close> is a reference to a \<^verbatim>\<open>MatchBase\<close> and \<^verbatim>\<open>indexes\<close> a vector of references to
  \<^verbatim>\<open>idx::IndexBase\<close>: both referenced types are parameters. The member
  \<^verbatim>\<open>result_set_factory\<close> is read by none of the operations below and is left out.
\<close>

record ('plan, 'idx) WasmContext =
  config' :: config_t
  id' :: "32 word"
  plan :: 'plan
  vm :: AddressSpace
  heap :: "32 word"
  indexes :: "'idx list"

text \<open>
  Modelled from the spec: the constructor
  \<^verbatim>\<open>WasmContext(uint32_t id, const MatchBase &plan, config_t configuration, std::size_t size)\<close>,
  which the header declares and does not define. The spec: given id, plan, config and size,
  reserve an address space of that size; heap starts at 0 (which is also the member's
  initialiser \<^verbatim>\<open>uint32_t heap = 0\<close>). The vector of indexes starts empty.
\<close>

definition WasmContext_init ::
  "32 word \<Rightarrow> 'plan \<Rightarrow> config_t \<Rightarrow> size_t \<Rightarrow> ('plan, 'idx) WasmContext" where
  "WasmContext_init i p configuration sz =
     \<lparr> config' = configuration, id' = i, plan = p, vm = AddressSpace_init sz,
       heap = 0, indexes = [] \<rparr>"

text \<open>\<^verbatim>\<open>bool config(config_t cfg) const { return bool(cfg & config_); }\<close>\<close>

definition config :: "config_t \<Rightarrow> ('plan, 'idx) WasmContext \<Rightarrow> bool" where
  "config cfg ctx = (cfg AND config' ctx \<noteq> 0)"

text \<open>
  \<^verbatim>\<open>add_index\<close>: \<^verbatim>\<open>indexes.emplace_back(index); return indexes.size() - 1;\<close>
  The result is the returned ordinal and the context after the call.
\<close>

definition add_index ::
  "'idx \<Rightarrow> ('plan, 'idx) WasmContext \<Rightarrow> nat \<times> ('plan, 'idx) WasmContext" where
  "add_index index ctx =
     (let ctx1 = ctx\<lparr>indexes := indexes ctx @ [index]\<rparr>
      in (length (indexes ctx1) - 1, ctx1))"

text \<open>Adding a list of indexes one after the other, keeping only the context.\<close>

fun add_indexes :: "'idx list \<Rightarrow> ('plan, 'idx) WasmContext \<Rightarrow> ('plan, 'idx) WasmContext" where
  "add_indexes [] ctx = ctx"
| "add_indexes (i # is) ctx = add_indexes is (snd (add_index i ctx))"

section \<open>The registry of contexts\<close>

text \<open>
  \<^verbatim>\<open>static inline std::unordered_map<unsigned, std::unique_ptr<WasmContext>> contexts_\<close> is a
  partial map from ids to contexts. The static member is global state: every operation takes
  the registry and, where it changes it, returns the new one. A returned reference
  \<^verbatim>\<open>WasmContext &\<close> is the context stored in the registry at that moment.
\<close>

type_synonym ('plan, 'idx) registry = "32 word \<rightharpoonup> ('plan, 'idx) WasmContext"

text \<open>
  The operations of \<^verbatim>\<open>std::unordered_map\<close> the engine uses. \<^verbatim>\<open>emplace\<close> and \<^verbatim>\<open>try_emplace\<close>
  insert only where the key is absent and return the element at the key with a flag;
  \<^verbatim>\<open>emplace\<close> is given the constructed value, \<^verbatim>\<open>try_emplace\<close> with \<^verbatim>\<open>lazy_construct\<close> is given
  a thunk that it runs only when it inserts. \<^verbatim>\<open>erase\<close> returns the number of elements
  removed.
\<close>

definition emplace :: "('k \<rightharpoonup> 'v) \<Rightarrow> 'k \<Rightarrow> 'v \<Rightarrow> ('v \<times> bool) \<times> ('k \<rightharpoonup> 'v)" where
  "emplace m k v = (case m k of None \<Rightarrow> ((v, True), m(k \<mapsto> v)) | Some w \<Rightarrow> ((w, False), m))"

definition try_emplace :: "('k \<rightharpoonup> 'v) \<Rightarrow> 'k \<Rightarrow> (unit \<Rightarrow> 'v) \<Rightarrow> ('v \<times> bool) \<times> ('k \<rightharpoonup> 'v)" where
  "try_emplace m k mk =
     (case m k of None \<Rightarrow> (let v = mk () in ((v, True), m(k \<mapsto> v))) | Some w \<Rightarrow> ((w, False), m))"

definition erase :: "('k \<rightharpoonup> 'v) \<Rightarrow> 'k \<Rightarrow> nat \<times> ('k \<rightharpoonup> 'v)" where
  "erase m k = (case m k of None \<Rightarrow> (0, m) | Some w \<Rightarrow> (1, m(k := None)))"

datatype error = Insist_Failed string

text \<open>
  Modelled from the spec: the macro \<^verbatim>\<open>M_insist(cond, msg)\<close> of \<^verbatim>\<open>mutable/util/macro.hpp\<close>,
  which is not among the sources. The spec (error handling design): a contract violation is
  reported by immediate, non-recoverable failure (abort-style), not by a retriable error
  value. An operation that aborts returns the failure and no registry.
\<close>

definition M_insist :: "bool \<Rightarrow> string \<Rightarrow> error + unit" where
  "M_insist cond msg = (if cond then Inr () else Inl (Insist_Failed msg))"

text \<open>
  \<^verbatim>\<open>Create_Wasm_Context_For_ID\<close>: the context is constructed first, then \<^verbatim>\<open>emplace\<close>d, then the
  insertion is insisted on; the result is \<^verbatim>\<open>*it->second\<close>.
\<close>

definition Create_Wasm_Context_For_ID ::
  "('plan, 'idx) registry \<Rightarrow> 32 word \<Rightarrow> 'plan \<Rightarrow> config_t \<Rightarrow> size_t
     \<Rightarrow> error + (('plan, 'idx) WasmContext \<times> ('plan, 'idx) registry)" where
  "Create_Wasm_Context_For_ID contexts i p configuration sz =
     (let wasm_context = WasmContext_init i p configuration sz;
          ((it, inserted), contexts1) = emplace contexts i wasm_context
      in case M_insist inserted ''WasmContext with that ID already exists'' of
           Inl e \<Rightarrow> Inl e
         | Inr u \<Rightarrow> Inr (it, contexts1))"

text \<open>
  \<^verbatim>\<open>Ensure_Wasm_Context_For_ID\<close>: \<^verbatim>\<open>try_emplace\<close> with a lazily constructed context; the result
  is the pair of \<^verbatim>\<open>*it->second\<close> and \<^verbatim>\<open>inserted\<close>.
\<close>

definition Ensure_Wasm_Context_For_ID ::
  "('plan, 'idx) registry \<Rightarrow> 32 word \<Rightarrow> 'plan \<Rightarrow> config_t \<Rightarrow> size_t
     \<Rightarrow> (('plan, 'idx) WasmContext \<times> bool) \<times> ('plan, 'idx) registry" where
  "Ensure_Wasm_Context_For_ID contexts i p configuration sz =
     try_emplace contexts i (\<lambda>u. WasmContext_init i p configuration sz)"

text \<open>
  The default arguments \<^verbatim>\<open>configuration = WasmContext::config_t(0x0)\<close> and
  \<^verbatim>\<open>size = WASM_MAX_MEMORY\<close>: a call that leaves out the size, and one that leaves out both.
\<close>

definition Create_Wasm_Context_For_ID_3 ::
  "('plan, 'idx) registry \<Rightarrow> 32 word \<Rightarrow> 'plan \<Rightarrow> config_t
     \<Rightarrow> error + (('plan, 'idx) WasmContext \<times> ('plan, 'idx) registry)" where
  "Create_Wasm_Context_For_ID_3 contexts i p configuration =
     Create_Wasm_Context_For_ID contexts i p configuration WASM_MAX_MEMORY"

definition Create_Wasm_Context_For_ID_2 ::
  "('plan, 'idx) registry \<Rightarrow> 32 word \<Rightarrow> 'plan
     \<Rightarrow> error + (('plan, 'idx) WasmContext \<times> ('plan, 'idx) registry)" where
  "Create_Wasm_Context_For_ID_2 contexts i p =
     Create_Wasm_Context_For_ID contexts i p 0 WASM_MAX_MEMORY"

definition Ensure_Wasm_Context_For_ID_3 ::
  "('plan, 'idx) registry \<Rightarrow> 32 word \<Rightarrow> 'plan \<Rightarrow> config_t
     \<Rightarrow> (('plan, 'idx) WasmContext \<times> bool) \<times> ('plan, 'idx) registry" where
  "Ensure_Wasm_Context_For_ID_3 contexts i p configuration =
     Ensure_Wasm_Context_For_ID contexts i p configuration WASM_MAX_MEMORY"

definition Ensure_Wasm_Context_For_ID_2 ::
  "('plan, 'idx) registry \<Rightarrow> 32 word \<Rightarrow> 'plan
     \<Rightarrow> (('plan, 'idx) WasmContext \<times> bool) \<times> ('plan, 'idx) registry" where
  "Ensure_Wasm_Context_For_ID_2 contexts i p =
     Ensure_Wasm_Context_For_ID contexts i p 0 WASM_MAX_MEMORY"

text \<open>
  \<^verbatim>\<open>Dispose_Wasm_Context(unsigned id)\<close>: erase, then insist that one element was removed.
  \<^verbatim>\<open>Dispose_Wasm_Context(const WasmContext &ctx)\<close> delegates with \<^verbatim>\<open>ctx.id\<close>.
\<close>

definition Dispose_Wasm_Context ::
  "('plan, 'idx) registry \<Rightarrow> 32 word \<Rightarrow> error + ('plan, 'idx) registry" where
  "Dispose_Wasm_Context contexts i =
     (let (res, contexts1) = erase contexts i
      in case M_insist (res = 1) ''There is no context with the given ID to erase'' of
           Inl e \<Rightarrow> Inl e
         | Inr u \<Rightarrow> Inr contexts1)"

definition Dispose_Wasm_Context_ref ::
  "('plan, 'idx) registry \<Rightarrow> ('plan, 'idx) WasmContext \<Rightarrow> error + ('plan, 'idx) registry" where
  "Dispose_Wasm_Context_ref contexts ctx = Dispose_Wasm_Context contexts (id' ctx)"

text \<open>\<^verbatim>\<open>Get_Wasm_Context_By_ID\<close>: find, insist that the id was found, return \<^verbatim>\<open>*it->second\<close>.\<close>

definition Get_Wasm_Context_By_ID ::
  "('plan, 'idx) registry \<Rightarrow> 32 word \<Rightarrow> error + ('plan, 'idx) WasmContext" where
  "Get_Wasm_Context_By_ID contexts i =
     (case M_insist (contexts i \<noteq> None) ''There is no context with the given ID'' of
        Inl e \<Rightarrow> Inl e
      | Inr u \<Rightarrow> (case contexts i of Some c \<Rightarrow> Inr c
                                  | None \<Rightarrow> Inl (Insist_Failed ''There is no context with the given ID'')))"

text \<open>\<^verbatim>\<open>Has_Wasm_Context\<close>: \<^verbatim>\<open>contexts_.find(id) != contexts_.end()\<close>.\<close>

definition Has_Wasm_Context :: "('plan, 'idx) registry \<Rightarrow> 32 word \<Rightarrow> bool" where
  "Has_Wasm_Context contexts i = (contexts i \<noteq> None)"

section \<open>Mapping tables and indexes into a context\<close>

text \<open>
  The header declares \<^verbatim>\<open>map_table\<close>, \<^verbatim>\<open>map_index\<close> and \<^verbatim>\<open>install_guard_page\<close> and does not
  define them. Three things they depend on are parameters of the model:
  \<^item> \<open>pagesize\<close>, the size in bytes of one page of the address space (the sources name the
    64 KiB WebAssembly page \<^verbatim>\<open>WASM_PAGE_SIZE\<close> and do not say which page a guard page is);
    page boundaries are its multiples;
  \<^item> \<open>table_bytes\<close>, the storage footprint in bytes of a table, which the spec derives from
    the table's layout without fixing the rounding;
  \<^item> \<open>index_bytes\<close>, the serialisable footprint in bytes of an index.
  The cursor \<^verbatim>\<open>heap\<close> is the header's \<^verbatim>\<open>uint32_t\<close>: adding to it wraps around at \<open>2 ^ 32\<close>.
\<close>

text \<open>
  The first page boundary strictly above an offset \<open>h\<close>, as a 32-bit offset, and the number
  of bytes from an offset \<open>n\<close> up to that boundary: a whole page when \<open>n\<close> lies on a page
  boundary, the rest of the page of \<open>n\<close> otherwise.
\<close>

definition next_page_boundary :: "nat \<Rightarrow> 32 word \<Rightarrow> 32 word" where
  "next_page_boundary pagesize h = of_nat ((unat h div pagesize + 1) * pagesize)"


text \<open>
  Modelled from the spec: \<^verbatim>\<open>WasmContext::install_guard_page\<close>. The spec: advances \<^verbatim>\<open>heap\<close> to the
  next page boundary and marks that page inaccessible to both reads and writes. The header's
  comment: installs a guard page at the current \<^verbatim>\<open>heap\<close> and increments \<^verbatim>\<open>heap\<close> to the next
  page. The guard page is recorded at the current \<^verbatim>\<open>heap\<close>, and \<^verbatim>\<open>heap\<close> moves to the first
  page boundary above it: one page further when \<^verbatim>\<open>heap\<close> lies on a page boundary, less than
  a page otherwise.
\<close>

definition install_guard_page ::
  "nat \<Rightarrow> ('plan, 'idx) WasmContext \<Rightarrow> ('plan, 'idx) WasmContext" where
  "install_guard_page pagesize ctx =
     ctx\<lparr> vm := (vm ctx)\<lparr>guard_pages := guard_pages (vm ctx) @ [heap ctx]\<rparr>,
          heap := next_page_boundary pagesize (heap ctx) \<rparr>"

text \<open>
  Modelled from the spec: \<^verbatim>\<open>WasmContext::map_table\<close>. The spec: computes the table's storage
  footprint, copies the table's column store into \<open>address_space[heap .. heap+size)\<close>,
  advances \<^verbatim>\<open>heap\<close> by \<open>size\<close>; if \<open>config.guard_pages\<close> is set, immediately installs one
  guard page after the mapped region and advances \<^verbatim>\<open>heap\<close> past it. Returns the base offset
  of the mapped region. The header's comment on the declaration: maps a table at the current
  start of \<^verbatim>\<open>heap\<close> and advances \<^verbatim>\<open>heap\<close> past the mapped region, returns the address of the
  mapped table, installs guard pages after each mapping, acknowledges \<^verbatim>\<open>TRAP_GUARD_PAGES\<close>.
  The comment leaves open what a context without the flag does after a mapping; the model
  takes the spec's reading, that no page is installed then.
\<close>

definition map_table ::
  "nat \<Rightarrow> ('tbl \<Rightarrow> nat) \<Rightarrow> 'tbl \<Rightarrow> ('plan, 'idx) WasmContext
     \<Rightarrow> 32 word \<times> ('plan, 'idx) WasmContext" where
  "map_table pagesize table_bytes table ctx =
     (let addr = heap ctx;
          n = table_bytes table;
          ctx1 = ctx\<lparr> vm := (vm ctx)\<lparr>mapped := mapped (vm ctx) @ [(addr, n)]\<rparr>,
                      heap := heap ctx + of_nat n \<rparr>
      in (addr, if config TRAP_GUARD_PAGES ctx1 then install_guard_page pagesize ctx1 else ctx1))"

text \<open>
  Modelled from the spec: \<^verbatim>\<open>WasmContext::map_index\<close>. The spec: identical pattern, specialised
  to an index's own serialisable footprint.
\<close>

definition map_index ::
  "nat \<Rightarrow> ('idx \<Rightarrow> nat) \<Rightarrow> 'idx \<Rightarrow> ('plan, 'idx) WasmContext
     \<Rightarrow> 32 word \<times> ('plan, 'idx) WasmContext" where
  "map_index pagesize index_bytes index ctx =
     (let addr = heap ctx;
          n = index_bytes index;
          ctx1 = ctx\<lparr> vm := (vm ctx)\<lparr>mapped := mapped (vm ctx) @ [(addr, n)]\<rparr>,
                      heap := heap ctx + of_nat n \<rparr>
      in (addr, if config TRAP_GUARD_PAGES ctx1 then install_guard_page pagesize ctx1 else ctx1))"


subsection \<open>Sequences of operations on one context\<close>

datatype ('tbl, 'idx) operation =
    Map_Table 'tbl
  | Map_Index 'idx
  | Install_Guard_Page
  | Add_Index 'idx

fun call ::
  "nat \<Rightarrow> ('tbl \<Rightarrow> nat) \<Rightarrow> ('idx \<Rightarrow> nat) \<Rightarrow> ('tbl, 'idx) operation
     \<Rightarrow> ('plan, 'idx) WasmContext \<Rightarrow> ('plan, 'idx) WasmContext" where
  "call pagesize table_bytes index_bytes (Map_Table t) ctx = snd (map_table pagesize table_bytes t ctx)"
| "call pagesize table_bytes index_bytes (Map_Index x) ctx = snd (map_index pagesize index_bytes x ctx)"
| "call pagesize table_bytes index_bytes Install_Guard_Page ctx = install_guard_page pagesize ctx"
| "call pagesize table_bytes index_bytes (Add_Index x) ctx = snd (add_index x ctx)"




subsection \<open>The registries the engine can be in\<close>

text \<open>
  The registry starts empty and changes by the engine's static functions and by calls of a
  registered context's methods through the reference that \<^verbatim>\<open>Create_Wasm_Context_For_ID\<close>,
  \<^verbatim>\<open>Ensure_Wasm_Context_For_ID\<close> or \<^verbatim>\<open>Get_Wasm_Context_By_ID\<close> returned.
\<close>

inductive engine_state ::
  "nat \<Rightarrow> ('tbl \<Rightarrow> nat) \<Rightarrow> ('idx \<Rightarrow> nat) \<Rightarrow> ('plan, 'idx) registry \<Rightarrow> bool"
  for pagesize :: nat and table_bytes :: "'tbl \<Rightarrow> nat" and index_bytes :: "'idx \<Rightarrow> nat" where
  startup: "engine_state pagesize table_bytes index_bytes Map.empty"
| created:
    "engine_state pagesize table_bytes index_bytes contexts \<Longrightarrow>
     Create_Wasm_Context_For_ID contexts i p c s = Inr (ctx, contexts1) \<Longrightarrow>
     engine_state pagesize table_bytes index_bytes contexts1"
| ensured:
    "engine_state pagesize table_bytes index_bytes contexts \<Longrightarrow>
     Ensure_Wasm_Context_For_ID contexts i p c s = ((ctx, inserted), contexts1) \<Longrightarrow>
     engine_state pagesize table_bytes index_bytes contexts1"
| disposed:
    "engine_state pagesize table_bytes index_bytes contexts \<Longrightarrow>
     Dispose_Wasm_Context contexts i = Inr contexts1 \<Longrightarrow>
     engine_state pagesize table_bytes index_bytes contexts1"
| disposed_ref:
    "engine_state pagesize table_bytes index_bytes contexts \<Longrightarrow>
     Dispose_Wasm_Context_ref contexts ctx = Inr contexts1 \<Longrightarrow>
     engine_state pagesize table_bytes index_bytes contexts1"
| called:
    "engine_state pagesize table_bytes index_bytes contexts \<Longrightarrow>
     contexts k = Some ctx \<Longrightarrow>
     engine_state pagesize table_bytes index_bytes
       (contexts(k \<mapsto> call pagesize table_bytes index_bytes m ctx))"

section \<open>Data layouts\<close>

text \<open>
  The sources hold one client of \<^verbatim>\<open>storage::DataLayout\<close>, the function
  \<^verbatim>\<open>create_custom_pax_layout\<close> of \<^verbatim>\<open>src/examples/pax_example.cpp\<close>; the class itself
  (\<^verbatim>\<open>mutable/storage/DataLayout.hpp\<close>) is not among them. Tuple counts, offsets and strides
  are natural numbers: the numbers of the example are far below any word size.
\<close>

text \<open>The types the example hands to \<^verbatim>\<open>add_leaf\<close>, all of category \<^verbatim>\<open>Type::TY_Vector\<close>.\<close>

datatype category = TY_Vector

datatype Type =
    Get_Integer category nat
  | Get_Char category nat
  | Get_Boolean category
  | Get_Double category

text \<open>
  Modelled from the spec: the layout tree and \<^verbatim>\<open>DataLayout\<close>. The spec: a \<open>LayoutNode\<close> is a
  Leaf \<open>{type, attribute_index, offset_bits, stride_bits}\<close> or a Group
  \<open>{capacity, base_offset_bits, span_bits, children}\<close>; a \<open>DataLayout\<close> is
  \<open>{num_tuples, root}\<close>. A layout that was constructed and not yet given its root inode has
  no root.
\<close>

datatype LayoutNode =
    Leaf Type nat nat nat
  | Group nat nat nat "LayoutNode list"

record DataLayout =
  num_tuples :: nat
  root :: "LayoutNode option"

definition DataLayout_init :: "nat \<Rightarrow> DataLayout" where
  "DataLayout_init n = \<lparr> num_tuples = n, root = None \<rparr>"

text \<open>
  The example holds references into the tree (\<^verbatim>\<open>auto &outer_pax\<close>, \<^verbatim>\<open>auto &ids_pax\<close>) and adds
  to the referenced inodes later. A reference is the path from the root to the inode: the
  positions of the children to descend into.
\<close>

type_synonym handle = "nat list"

fun node_at :: "handle \<Rightarrow> LayoutNode \<Rightarrow> LayoutNode option"
  and child_at :: "nat \<Rightarrow> handle \<Rightarrow> LayoutNode list \<Rightarrow> LayoutNode option" where
  "node_at [] n = Some n"
| "node_at (i # h) (Leaf ty a off stride) = None"
| "node_at (i # h) (Group cap base span cs) = child_at i h cs"
| "child_at i h [] = None"
| "child_at 0 h (c # cs) = node_at h c"
| "child_at (Suc i) h (c # cs) = child_at i h cs"

fun replace_at :: "handle \<Rightarrow> LayoutNode \<Rightarrow> LayoutNode \<Rightarrow> LayoutNode option"
  and replace_child ::
    "nat \<Rightarrow> handle \<Rightarrow> LayoutNode \<Rightarrow> LayoutNode list \<Rightarrow> LayoutNode list option" where
  "replace_at [] new n = Some new"
| "replace_at (i # h) new (Leaf ty a off stride) = None"
| "replace_at (i # h) new (Group cap base span cs) =
     map_option (Group cap base span) (replace_child i h new cs)"
| "replace_child i h new [] = None"
| "replace_child 0 h new (c # cs) = map_option (\<lambda>c1. c1 # cs) (replace_at h new c)"
| "replace_child (Suc i) h new (c # cs) =
     map_option (\<lambda>cs1. c # cs1) (replace_child i h new cs)"

text \<open>The attribute indexes the leaves of a tree address.\<close>

fun attributes :: "LayoutNode \<Rightarrow> nat list"
  and attributes_of_children :: "LayoutNode list \<Rightarrow> nat list" where
  "attributes (Leaf ty a off stride) = [a]"
| "attributes (Group cap base span cs) = attributes_of_children cs"
| "attributes_of_children [] = []"
| "attributes_of_children (c # cs) = attributes c @ attributes_of_children cs"

text \<open>
  Modelled from the spec: \<^verbatim>\<open>DataLayout::add_inode(num_tuples, stride_in_bits)\<close>,
  \<^verbatim>\<open>INode::add_inode(num_tuples, offset_in_bits, stride_in_bits)\<close> and
  \<^verbatim>\<open>INode::add_leaf(type, idx, offset_in_bits, stride_in_bits)\<close>, which the example calls. The
  spec: \<open>add_group(capacity, base_offset_bits, span_bits)\<close> appends a new child Group to a
  parent (or to the root) and returns a handle to it; \<open>add_leaf\<close> appends a Leaf to a Group;
  the caller supplies the offsets and the structure validates them: a span or offset placing
  a child outside its parent's allotted range (for a leaf, \<open>stride_bits \<times> capacity\<close> of its
  group beyond the group's span), or a duplicate attribute index within one layout, fails
  immediately. A failure is \<open>None\<close>. The root inode starts at offset 0.
\<close>

definition add_inode_root ::
  "nat \<Rightarrow> nat \<Rightarrow> DataLayout \<Rightarrow> (handle \<times> DataLayout) option" where
  "add_inode_root cap span layout = Some ([], layout\<lparr>root := Some (Group cap 0 span [])\<rparr>)"

definition add_inode ::
  "handle \<Rightarrow> nat \<Rightarrow> nat \<Rightarrow> nat \<Rightarrow> DataLayout \<Rightarrow> (handle \<times> DataLayout) option" where
  "add_inode parent cap base span layout =
     (case root layout of
        None \<Rightarrow> None
      | Some r \<Rightarrow>
          (case node_at parent r of
             Some (Group pcap pbase pspan cs) \<Rightarrow>
               if base + span \<le> pspan
               then map_option
                      (\<lambda>r1. (parent @ [length cs], layout\<lparr>root := Some r1\<rparr>))
                      (replace_at parent (Group pcap pbase pspan (cs @ [Group cap base span []])) r)
               else None
           | _ \<Rightarrow> None))"

definition add_leaf ::
  "handle \<Rightarrow> Type \<Rightarrow> nat \<Rightarrow> nat \<Rightarrow> nat \<Rightarrow> DataLayout \<Rightarrow> DataLayout option" where
  "add_leaf parent ty a off stride layout =
     (case root layout of
        None \<Rightarrow> None
      | Some r \<Rightarrow>
          (case node_at parent r of
             Some (Group pcap pbase pspan cs) \<Rightarrow>
               if off + stride * pcap \<le> pspan \<and> a \<notin> set (attributes r)
               then map_option
                      (\<lambda>r1. layout\<lparr>root := Some r1\<rparr>)
                      (replace_at parent (Group pcap pbase pspan (cs @ [Leaf ty a off stride])) r)
               else None
           | _ \<Rightarrow> None))"

text \<open>
  \<^verbatim>\<open>create_custom_pax_layout\<close> of \<^verbatim>\<open>src/examples/pax_example.cpp\<close>, statement by statement.
\<close>

definition create_custom_pax_layout :: "DataLayout option" where
  "create_custom_pax_layout = do {
     let n = 1000;
     let layout = DataLayout_init n;
     (outer_pax, layout) \<leftarrow> add_inode_root 256 (64 * 1024 * 8) layout;
     (ids_pax, layout) \<leftarrow> add_inode outer_pax 256 0 (256 * 4 * 8) layout;
     layout \<leftarrow> add_leaf ids_pax (Get_Integer TY_Vector 4) 0 0 32 layout;
     (name_mgr_pax, layout) \<leftarrow>
        add_inode outer_pax 256 (256 * 4 * 8) (256 * (50 + 1) * 8) layout;
     layout \<leftarrow> add_leaf name_mgr_pax (Get_Char TY_Vector 50) 1 0 400 layout;
     layout \<leftarrow> add_leaf name_mgr_pax (Get_Boolean TY_Vector) 4 (256 * 400) 8 layout;
     (nums_pax, layout) \<leftarrow>
        add_inode outer_pax 256 (256 * (4 + 50 + 1) * 8) (256 * (4 + 8) * 8) layout;
     layout \<leftarrow> add_leaf nums_pax (Get_Integer TY_Vector 4) 2 0 32 layout;
     layout \<leftarrow> add_leaf nums_pax (Get_Double TY_Vector) 3 (256 * 32) 64 layout;
     Some layout
   }"

text \<open>
  Modelled from the spec: address resolution, which is in none of the sources. The spec, for
  attribute index \<open>a\<close> and tuple index \<open>t\<close>:
  \<^enum> at the current Group level, \<open>local = t mod group.capacity\<close> and
    \<open>outer = t / group.capacity\<close> (integer division);
  \<^enum> the bit offset contributed by this level is
    \<open>group.base_offset_bits + outer \<times> group.span_bits\<close>;
  \<^enum> descend into the child holding attribute \<open>a\<close>, accumulating the offset;
  \<^enum> at a Leaf, the final address is the leaf's \<open>offset_bits\<close> plus \<open>local \<times> stride_bits\<close>,
    plus all accumulated parent offsets.
  The tuple index a level hands down is its \<open>local\<close>. The child holding \<open>a\<close> is the first,
  in insertion order, under which \<open>a\<close> resolves. The result is the address in bits together
  with the pair \<open>(outer, local)\<close> of every Group level passed, the root's first; it is \<open>None\<close>
  when no leaf addresses \<open>a\<close> or a Group on the way has capacity 0 (a division by zero).
\<close>

fun resolve :: "nat \<Rightarrow> nat \<Rightarrow> LayoutNode \<Rightarrow> ((nat \<times> nat) list \<times> nat) option"
  and resolve_child ::
    "nat \<Rightarrow> nat \<Rightarrow> LayoutNode list \<Rightarrow> ((nat \<times> nat) list \<times> nat) option" where
  "resolve a t (Leaf ty b off stride) = (if b = a then Some ([], off + t * stride) else None)"
| "resolve a t (Group cap base span cs) =
     (if cap = 0 then None
      else let local = t mod cap; outer = t div cap
           in case resolve_child a local cs of
                None \<Rightarrow> None
              | Some (levels, addr) \<Rightarrow>
                  Some ((outer, local) # levels, base + outer * span + addr))"
| "resolve_child a t [] = None"
| "resolve_child a t (c # cs) =
     (case resolve a t c of Some r \<Rightarrow> Some r | None \<Rightarrow> resolve_child a t cs)"

definition resolve_address ::
  "DataLayout \<Rightarrow> nat \<Rightarrow> nat \<Rightarrow> ((nat \<times> nat) list \<times> nat) option" where
  "resolve_address layout a t = (case root layout of None \<Rightarrow> None | Some r \<Rightarrow> resolve a t r)"

text \<open>The base offset in bits of a Group's block number \<open>outer\<close>.\<close>

fun block_base :: "LayoutNode \<Rightarrow> nat \<Rightarrow> nat" where
  "block_base (Group cap base span cs) outer = base + outer * span"
| "block_base (Leaf ty a off stride) outer = off"

section \<open>Properties of the registry\<close>

lemma Create_absent:
  "contexts i = None \<Longrightarrow>
   Create_Wasm_Context_For_ID contexts i p c s =
     Inr (WasmContext_init i p c s, contexts(i \<mapsto> WasmContext_init i p c s))"
  by (simp add: Create_Wasm_Context_For_ID_def emplace_def M_insist_def Let_def)

lemma Create_present:
  "contexts i = Some w \<Longrightarrow>
   Create_Wasm_Context_For_ID contexts i p c s =
     Inl (Insist_Failed ''WasmContext with that ID already exists'')"
  by (simp add: Create_Wasm_Context_For_ID_def emplace_def M_insist_def)

lemma Ensure_absent:
  "contexts i = None \<Longrightarrow>
   Ensure_Wasm_Context_For_ID contexts i p c s =
     ((WasmContext_init i p c s, True), contexts(i \<mapsto> WasmContext_init i p c s))"
  by (simp add: Ensure_Wasm_Context_For_ID_def try_emplace_def Let_def)

lemma Ensure_present:
  "contexts i = Some w \<Longrightarrow>
   Ensure_Wasm_Context_For_ID contexts i p c s = ((w, False), contexts)"
  by (simp add: Ensure_Wasm_Context_For_ID_def try_emplace_def)

lemma Dispose_present:
  "contexts i = Some w \<Longrightarrow> Dispose_Wasm_Context contexts i = Inr (contexts(i := None))"
  by (simp add: Dispose_Wasm_Context_def erase_def M_insist_def)

lemma Dispose_absent:
  "contexts i = None \<Longrightarrow>
   Dispose_Wasm_Context contexts i =
     Inl (Insist_Failed ''There is no context with the given ID to erase'')"
  by (simp add: Dispose_Wasm_Context_def erase_def M_insist_def)

lemma Get_absent:
  "contexts i = None \<Longrightarrow>
   Get_Wasm_Context_By_ID contexts i = Inl (Insist_Failed ''There is no context with the given ID'')"
  by (simp add: Get_Wasm_Context_By_ID_def M_insist_def)

lemma Get_present:
  "contexts i = Some w \<Longrightarrow> Get_Wasm_Context_By_ID contexts i = Inr w"
  by (simp add: Get_Wasm_Context_By_ID_def M_insist_def)

text \<open>
  C3. \<^verbatim>\<open>Create_Wasm_Context_For_ID\<close> fails when a context with the id is registered. Otherwise
  it constructs a new context, inserts it under the id (the other entries stay as they are)
  and returns it. In particular, after a successful create, disposing the id succeeds and a
  second create of the same id (with any plan, configuration and size) succeeds again.
\<close>

theorem Create_Wasm_Context_For_ID_spec:
  "(contexts i \<noteq> None \<longrightarrow>
      Create_Wasm_Context_For_ID contexts i p c s =
        Inl (Insist_Failed ''WasmContext with that ID already exists'')) \<and>
   (contexts i = None \<longrightarrow>
      Create_Wasm_Context_For_ID contexts i p c s =
        Inr (WasmContext_init i p c s, contexts(i \<mapsto> WasmContext_init i p c s))) \<and>
   (Create_Wasm_Context_For_ID contexts i p c s = Inr (ctx1, contexts1) \<longrightarrow>
      Dispose_Wasm_Context contexts1 i = Inr (contexts1(i := None)) \<and>
      Create_Wasm_Context_For_ID (contexts1(i := None)) i p2 c2 s2 =
        Inr (WasmContext_init i p2 c2 s2, contexts1(i \<mapsto> WasmContext_init i p2 c2 s2)))"
proof (intro conjI impI)
  assume "contexts i \<noteq> None"
  then obtain w where "contexts i = Some w" by auto
  then show "Create_Wasm_Context_For_ID contexts i p c s =
      Inl (Insist_Failed ''WasmContext with that ID already exists'')"
    by (rule Create_present)
next
  assume "contexts i = None"
  then show "Create_Wasm_Context_For_ID contexts i p c s =
      Inr (WasmContext_init i p c s, contexts(i \<mapsto> WasmContext_init i p c s))"
    by (rule Create_absent)
next
  assume ok: "Create_Wasm_Context_For_ID contexts i p c s = Inr (ctx1, contexts1)"
  have absent: "contexts i = None"
  proof (cases "contexts i")
    case None
    then show ?thesis .
  next
    case (Some w)
    then have "Create_Wasm_Context_For_ID contexts i p c s =
        Inl (Insist_Failed ''WasmContext with that ID already exists'')"
      by (rule Create_present)
    with ok show ?thesis by simp
  qed
  from absent have "Create_Wasm_Context_For_ID contexts i p c s =
      Inr (WasmContext_init i p c s, contexts(i \<mapsto> WasmContext_init i p c s))"
    by (rule Create_absent)
  with ok
  have c1: "contexts1 = contexts(i \<mapsto> WasmContext_init i p c s)" by auto
  then have "contexts1 i = Some (WasmContext_init i p c s)" by simp
  then show "Dispose_Wasm_Context contexts1 i = Inr (contexts1(i := None))"
    by (rule Dispose_present)
  have "(contexts1(i := None)) i = None" by simp
  then have "Create_Wasm_Context_For_ID (contexts1(i := None)) i p2 c2 s2 =
      Inr (WasmContext_init i p2 c2 s2, (contexts1(i := None))(i \<mapsto> WasmContext_init i p2 c2 s2))"
    by (rule Create_absent)
  then show "Create_Wasm_Context_For_ID (contexts1(i := None)) i p2 c2 s2 =
      Inr (WasmContext_init i p2 c2 s2, contexts1(i \<mapsto> WasmContext_init i p2 c2 s2))"
    by simp
qed

theorem Create_Wasm_Context_For_ID_spec_witness:
  "Create_Wasm_Context_For_ID (Map.empty :: (unit, nat) registry) 7 () 0 WASM_MAX_MEMORY =
     Inr (WasmContext_init 7 () 0 WASM_MAX_MEMORY, [7 \<mapsto> WasmContext_init 7 () 0 WASM_MAX_MEMORY]) \<and>
   Create_Wasm_Context_For_ID [7 \<mapsto> WasmContext_init 7 () 0 WASM_MAX_MEMORY :: (unit, nat) WasmContext]
       7 () 1 65536 =
     Inl (Insist_Failed ''WasmContext with that ID already exists'') \<and>
   Dispose_Wasm_Context [7 \<mapsto> WasmContext_init 7 () 0 WASM_MAX_MEMORY :: (unit, nat) WasmContext] 7 =
     Inr Map.empty \<and>
   Create_Wasm_Context_For_ID (Map.empty :: (unit, nat) registry) 7 () 1 65536 =
     Inr (WasmContext_init 7 () 1 65536, [7 \<mapsto> WasmContext_init 7 () 1 65536])"
proof -
  let ?w = "WasmContext_init 7 () 0 WASM_MAX_MEMORY :: (unit, nat) WasmContext"
  note absent = Create_Wasm_Context_For_ID_spec
    [of Map.empty 7 "()" 0 WASM_MAX_MEMORY ?w "[7 \<mapsto> ?w]" "()" 1 65536]
  note present = Create_Wasm_Context_For_ID_spec [of "[7 \<mapsto> ?w]" 7 "()" 1 65536]
  from absent present show ?thesis by simp
qed

text \<open>
  C4. \<^verbatim>\<open>Ensure_Wasm_Context_For_ID\<close> returns the registered context with \<open>inserted = False\<close>
  and leaves the registry as it is when the id is registered. Otherwise it returns a newly
  constructed context with \<open>inserted = True\<close>, and the context and the registry are the ones
  \<^verbatim>\<open>Create_Wasm_Context_For_ID\<close> produces from the same arguments.
\<close>

theorem Ensure_Wasm_Context_For_ID_spec:
  "(contexts i = Some w \<longrightarrow>
      Ensure_Wasm_Context_For_ID contexts i p c s = ((w, False), contexts)) \<and>
   (contexts i = None \<longrightarrow>
      Ensure_Wasm_Context_For_ID contexts i p c s =
        ((WasmContext_init i p c s, True), contexts(i \<mapsto> WasmContext_init i p c s)) \<and>
      Create_Wasm_Context_For_ID contexts i p c s =
        Inr (fst (fst (Ensure_Wasm_Context_For_ID contexts i p c s)),
             snd (Ensure_Wasm_Context_For_ID contexts i p c s)))"
proof (intro conjI impI)
  assume "contexts i = Some w"
  then show "Ensure_Wasm_Context_For_ID contexts i p c s = ((w, False), contexts)"
    by (rule Ensure_present)
next
  assume absent: "contexts i = None"
  then show e: "Ensure_Wasm_Context_For_ID contexts i p c s =
      ((WasmContext_init i p c s, True), contexts(i \<mapsto> WasmContext_init i p c s))"
    by (rule Ensure_absent)
  from absent have "Create_Wasm_Context_For_ID contexts i p c s =
      Inr (WasmContext_init i p c s, contexts(i \<mapsto> WasmContext_init i p c s))"
    by (rule Create_absent)
  with e show "Create_Wasm_Context_For_ID contexts i p c s =
      Inr (fst (fst (Ensure_Wasm_Context_For_ID contexts i p c s)),
           snd (Ensure_Wasm_Context_For_ID contexts i p c s))"
    by simp
qed

theorem Ensure_Wasm_Context_For_ID_spec_witness:
  "Ensure_Wasm_Context_For_ID [3 \<mapsto> WasmContext_init 3 () 0 4096 :: (unit, nat) WasmContext]
       3 () 1 WASM_MAX_MEMORY =
     ((WasmContext_init 3 () 0 4096, False), [3 \<mapsto> WasmContext_init 3 () 0 4096]) \<and>
   Ensure_Wasm_Context_For_ID [3 \<mapsto> WasmContext_init 3 () 0 4096 :: (unit, nat) WasmContext]
       4 () 1 WASM_MAX_MEMORY =
     ((WasmContext_init 4 () 1 WASM_MAX_MEMORY, True),
      [3 \<mapsto> WasmContext_init 3 () 0 4096, 4 \<mapsto> WasmContext_init 4 () 1 WASM_MAX_MEMORY]) \<and>
   Create_Wasm_Context_For_ID [3 \<mapsto> WasmContext_init 3 () 0 4096 :: (unit, nat) WasmContext]
       4 () 1 WASM_MAX_MEMORY =
     Inr (WasmContext_init 4 () 1 WASM_MAX_MEMORY,
          [3 \<mapsto> WasmContext_init 3 () 0 4096, 4 \<mapsto> WasmContext_init 4 () 1 WASM_MAX_MEMORY])"
proof -
  let ?w = "WasmContext_init 3 () 0 4096 :: (unit, nat) WasmContext"
  note present = Ensure_Wasm_Context_For_ID_spec [of "[3 \<mapsto> ?w]" 3 ?w "()" 1 WASM_MAX_MEMORY]
  note absent = Ensure_Wasm_Context_For_ID_spec [of "[3 \<mapsto> ?w]" 4 ?w "()" 1 WASM_MAX_MEMORY]
  from absent present show ?thesis by simp
qed

text \<open>
  C5. \<^verbatim>\<open>Dispose_Wasm_Context\<close> on a registered id removes that id's entry and no other:
  afterwards \<^verbatim>\<open>Has_Wasm_Context\<close> is false for the id and \<^verbatim>\<open>Get_Wasm_Context_By_ID\<close> fails for
  it. On an id that is not registered \<^verbatim>\<open>Dispose_Wasm_Context\<close> fails.
\<close>

theorem Dispose_Wasm_Context_spec:
  "(contexts i \<noteq> None \<longrightarrow>
      Dispose_Wasm_Context contexts i = Inr (contexts(i := None)) \<and>
      \<not> Has_Wasm_Context (contexts(i := None)) i \<and>
      Get_Wasm_Context_By_ID (contexts(i := None)) i =
        Inl (Insist_Failed ''There is no context with the given ID'')) \<and>
   (contexts i = None \<longrightarrow>
      Dispose_Wasm_Context contexts i =
        Inl (Insist_Failed ''There is no context with the given ID to erase''))"
proof (intro conjI impI)
  assume "contexts i \<noteq> None"
  then obtain w where "contexts i = Some w" by auto
  then show "Dispose_Wasm_Context contexts i = Inr (contexts(i := None))"
    by (rule Dispose_present)
next
  show "\<not> Has_Wasm_Context (contexts(i := None)) i"
    by (simp add: Has_Wasm_Context_def)
next
  have "(contexts(i := None)) i = None" by simp
  then show "Get_Wasm_Context_By_ID (contexts(i := None)) i =
      Inl (Insist_Failed ''There is no context with the given ID'')"
    by (rule Get_absent)
next
  assume "contexts i = None"
  then show "Dispose_Wasm_Context contexts i =
      Inl (Insist_Failed ''There is no context with the given ID to erase'')"
    by (rule Dispose_absent)
qed

theorem Dispose_Wasm_Context_spec_witness:
  "Dispose_Wasm_Context
       [3 \<mapsto> WasmContext_init 3 () 0 4096 :: (unit, nat) WasmContext, 4 \<mapsto> WasmContext_init 4 () 1 8192] 3 =
     Inr [4 \<mapsto> WasmContext_init 4 () 1 8192] \<and>
   Has_Wasm_Context [4 \<mapsto> WasmContext_init 4 () 1 8192 :: (unit, nat) WasmContext] 3 = False \<and>
   Get_Wasm_Context_By_ID [4 \<mapsto> WasmContext_init 4 () 1 8192 :: (unit, nat) WasmContext] 3 =
     Inl (Insist_Failed ''There is no context with the given ID'') \<and>
   Dispose_Wasm_Context [4 \<mapsto> WasmContext_init 4 () 1 8192 :: (unit, nat) WasmContext] 3 =
     Inl (Insist_Failed ''There is no context with the given ID to erase'')"
proof -
  let ?a = "WasmContext_init 3 () 0 4096 :: (unit, nat) WasmContext"
  let ?b = "WasmContext_init 4 () 1 8192 :: (unit, nat) WasmContext"
  have upd: "[3 \<mapsto> ?a, 4 \<mapsto> ?b](3 := None) = ([4 \<mapsto> ?b] :: (unit, nat) registry)"
    by (rule ext) simp
  note present = Dispose_Wasm_Context_spec [of "[3 \<mapsto> ?a, 4 \<mapsto> ?b]" 3]
  note absent = Dispose_Wasm_Context_spec [of "[4 \<mapsto> ?b]" 3]
  from present absent show ?thesis by (simp add: upd)
qed

section \<open>Properties of a context's indexes\<close>

lemma add_index_fst: "fst (add_index index ctx) = length (indexes ctx)"
  by (simp add: add_index_def Let_def)

lemma add_index_indexes: "indexes (snd (add_index index ctx)) = indexes ctx @ [index]"
  by (simp add: add_index_def Let_def)

lemma add_indexes_indexes: "indexes (add_indexes js ctx) = indexes ctx @ js"
  by (induction js arbitrary: ctx) (simp_all add: add_index_indexes)

text \<open>
  C7. \<^verbatim>\<open>add_index\<close> appends the index to the context's \<^verbatim>\<open>indexes\<close> and returns its position:
  the number of indexes the context held before the call, hence, on a context that was
  constructed and then given the indexes \<open>js\<close> by \<^verbatim>\<open>add_index\<close>, the number \<open>length js\<close> of
  earlier calls. Reading \<^verbatim>\<open>indexes\<close> at the returned position yields the index that was
  added.
\<close>

theorem add_index_spec:
  "indexes (snd (add_index index ctx)) = indexes ctx @ [index] \<and>
   fst (add_index index ctx) = length (indexes ctx) \<and>
   indexes (snd (add_index index ctx)) ! fst (add_index index ctx) = index \<and>
   fst (add_index index (add_indexes js (WasmContext_init i p c s))) = length js"
  by (simp add: add_index_fst add_index_indexes add_indexes_indexes WasmContext_init_def)

section \<open>The default address space\<close>

lemma WasmContext_init_default:
  "unat (as_size (vm (WasmContext_init i p c WASM_MAX_MEMORY))) = 2 ^ 32 - 2 ^ 16 \<and>
   heap (WasmContext_init i p c WASM_MAX_MEMORY) = 0"
  by (simp add: WasmContext_init_def AddressSpace_init_def WASM_MAX_MEMORY_def)

lemma Create_Inr:
  "Create_Wasm_Context_For_ID contexts i p c s = Inr (ctx, contexts1) \<Longrightarrow>
   contexts i = None \<and> ctx = WasmContext_init i p c s \<and> contexts1 = contexts(i \<mapsto> ctx)"
  by (cases "contexts i") (auto simp: Create_present Create_absent)

lemma Ensure_inserted:
  "Ensure_Wasm_Context_For_ID contexts i p c s = ((ctx, True), contexts1) \<Longrightarrow>
   ctx = WasmContext_init i p c s"
  by (cases "contexts i") (auto simp: Ensure_present Ensure_absent)

text \<open>
  C8. A context that is constructed without a size argument, that is by a call of
  \<^verbatim>\<open>Create_Wasm_Context_For_ID\<close> or \<^verbatim>\<open>Ensure_Wasm_Context_For_ID\<close> that leaves the size (or the
  configuration and the size) to the default arguments, has an address space of exactly
  \<open>2 ^ 32 - 2 ^ 16\<close> bytes, and its heap cursor is 0.
\<close>

theorem default_address_space:
  "(Create_Wasm_Context_For_ID_2 contexts i p = Inr (ctx, contexts1) \<longrightarrow>
      unat (as_size (vm ctx)) = 2 ^ 32 - 2 ^ 16 \<and> heap ctx = 0) \<and>
   (Create_Wasm_Context_For_ID_3 contexts i p c = Inr (ctx, contexts1) \<longrightarrow>
      unat (as_size (vm ctx)) = 2 ^ 32 - 2 ^ 16 \<and> heap ctx = 0) \<and>
   (Ensure_Wasm_Context_For_ID_2 contexts i p = ((ctx, True), contexts1) \<longrightarrow>
      unat (as_size (vm ctx)) = 2 ^ 32 - 2 ^ 16 \<and> heap ctx = 0) \<and>
   (Ensure_Wasm_Context_For_ID_3 contexts i p c = ((ctx, True), contexts1) \<longrightarrow>
      unat (as_size (vm ctx)) = 2 ^ 32 - 2 ^ 16 \<and> heap ctx = 0)"
proof (intro conjI impI)
  assume "Create_Wasm_Context_For_ID_2 contexts i p = Inr (ctx, contexts1)"
  then have "ctx = WasmContext_init i p 0 WASM_MAX_MEMORY"
    unfolding Create_Wasm_Context_For_ID_2_def by (simp add: Create_Inr)
  then show "unat (as_size (vm ctx)) = 2 ^ 32 - 2 ^ 16" "heap ctx = 0"
    by (simp_all add: WasmContext_init_default)
next
  assume "Create_Wasm_Context_For_ID_3 contexts i p c = Inr (ctx, contexts1)"
  then have "ctx = WasmContext_init i p c WASM_MAX_MEMORY"
    unfolding Create_Wasm_Context_For_ID_3_def by (simp add: Create_Inr)
  then show "unat (as_size (vm ctx)) = 2 ^ 32 - 2 ^ 16" "heap ctx = 0"
    by (simp_all add: WasmContext_init_default)
next
  assume "Ensure_Wasm_Context_For_ID_2 contexts i p = ((ctx, True), contexts1)"
  then have "ctx = WasmContext_init i p 0 WASM_MAX_MEMORY"
    unfolding Ensure_Wasm_Context_For_ID_2_def by (rule Ensure_inserted)
  then show "unat (as_size (vm ctx)) = 2 ^ 32 - 2 ^ 16" "heap ctx = 0"
    by (simp_all add: WasmContext_init_default)
next
  assume "Ensure_Wasm_Context_For_ID_3 contexts i p c = ((ctx, True), contexts1)"
  then have "ctx = WasmContext_init i p c WASM_MAX_MEMORY"
    unfolding Ensure_Wasm_Context_For_ID_3_def by (rule Ensure_inserted)
  then show "unat (as_size (vm ctx)) = 2 ^ 32 - 2 ^ 16" "heap ctx = 0"
    by (simp_all add: WasmContext_init_default)
qed

theorem default_address_space_witness:
  "Create_Wasm_Context_For_ID_2 (Map.empty :: (unit, nat) registry) 1 () =
     Inr (WasmContext_init 1 () 0 WASM_MAX_MEMORY, [1 \<mapsto> WasmContext_init 1 () 0 WASM_MAX_MEMORY]) \<and>
   Create_Wasm_Context_For_ID_3 (Map.empty :: (unit, nat) registry) 1 () 0 =
     Inr (WasmContext_init 1 () 0 WASM_MAX_MEMORY, [1 \<mapsto> WasmContext_init 1 () 0 WASM_MAX_MEMORY]) \<and>
   Ensure_Wasm_Context_For_ID_2 (Map.empty :: (unit, nat) registry) 1 () =
     ((WasmContext_init 1 () 0 WASM_MAX_MEMORY, True), [1 \<mapsto> WasmContext_init 1 () 0 WASM_MAX_MEMORY]) \<and>
   Ensure_Wasm_Context_For_ID_3 (Map.empty :: (unit, nat) registry) 1 () 0 =
     ((WasmContext_init 1 () 0 WASM_MAX_MEMORY, True), [1 \<mapsto> WasmContext_init 1 () 0 WASM_MAX_MEMORY]) \<and>
   unat (as_size (vm (WasmContext_init 1 () 0 WASM_MAX_MEMORY :: (unit, nat) WasmContext))) = 4294901760 \<and>
   heap (WasmContext_init 1 () 0 WASM_MAX_MEMORY :: (unit, nat) WasmContext) = 0"
proof -
  let ?w = "WasmContext_init 1 () 0 WASM_MAX_MEMORY :: (unit, nat) WasmContext"
  have c2: "Create_Wasm_Context_For_ID_2 (Map.empty :: (unit, nat) registry) 1 () = Inr (?w, [1 \<mapsto> ?w])"
    by (simp add: Create_Wasm_Context_For_ID_2_def Create_absent)
  have c3: "Create_Wasm_Context_For_ID_3 (Map.empty :: (unit, nat) registry) 1 () 0 = Inr (?w, [1 \<mapsto> ?w])"
    by (simp add: Create_Wasm_Context_For_ID_3_def Create_absent)
  have e2: "Ensure_Wasm_Context_For_ID_2 (Map.empty :: (unit, nat) registry) 1 () = ((?w, True), [1 \<mapsto> ?w])"
    by (simp add: Ensure_Wasm_Context_For_ID_2_def Ensure_absent)
  have e3: "Ensure_Wasm_Context_For_ID_3 (Map.empty :: (unit, nat) registry) 1 () 0 = ((?w, True), [1 \<mapsto> ?w])"
    by (simp add: Ensure_Wasm_Context_For_ID_3_def Ensure_absent)
  note t = default_address_space [of Map.empty 1 "()" ?w "[1 \<mapsto> ?w]" 0]
  from t c2 c3 e2 e3 show ?thesis by simp
qed

section \<open>Registry keys and context ids\<close>

lemma install_guard_page_id: "id' (install_guard_page P ctx) = id' ctx"
  by (simp add: install_guard_page_def)

lemma call_id: "id' (call P tb ib m ctx) = id' ctx"
  by (cases m) (simp_all add: map_table_def map_index_def install_guard_page_def add_index_def Let_def)

lemma Dispose_Inr:
  "Dispose_Wasm_Context contexts i = Inr contexts1 \<Longrightarrow> contexts1 = contexts(i := None)"
  by (cases "contexts i") (auto simp: Dispose_present Dispose_absent)

text \<open>
  In every state of the engine, a context is registered under its own \<^verbatim>\<open>id\<close>.
\<close>

lemma engine_state_key:
  "engine_state P tb ib contexts \<Longrightarrow> contexts k = Some ctx \<Longrightarrow> id' ctx = k"
proof (induction arbitrary: k ctx rule: engine_state.induct)
  case startup
  then show ?case by simp
next
  case (created contexts i p c s ctx0 contexts1)
  from Create_Inr [OF created.hyps(2)] created.prems created.IH show ?case
    by (auto simp: WasmContext_init_def split: if_splits)
next
  case (ensured contexts i p c s ctx0 inserted contexts1)
  show ?case
  proof (cases "contexts i")
    case None
    with ensured.hyps(2) have "contexts1 = contexts(i \<mapsto> WasmContext_init i p c s)"
      by (auto simp: Ensure_absent)
    with ensured.prems ensured.IH show ?thesis
      by (auto simp: WasmContext_init_def split: if_splits)
  next
    case (Some w)
    with ensured.hyps(2) have "contexts1 = contexts" by (auto simp: Ensure_present)
    with ensured.prems ensured.IH show ?thesis by simp
  qed
next
  case (disposed contexts i contexts1)
  from Dispose_Inr [OF disposed.hyps(2)] disposed.prems disposed.IH show ?case
    by (auto split: if_splits)
next
  case (disposed_ref contexts c0 contexts1)
  from disposed_ref.hyps(2) have "contexts1 = contexts(id' c0 := None)"
    unfolding Dispose_Wasm_Context_ref_def by (rule Dispose_Inr)
  with disposed_ref.prems disposed_ref.IH show ?case
    by (auto split: if_splits)
next
  case (called contexts j c0 m)
  then show ?case by (auto simp: call_id split: if_splits)
qed

lemma two_contexts:
  "engine_state 65536 id id
     [3 \<mapsto> WasmContext_init 3 () 0 4096 :: (unit, nat) WasmContext,
      4 \<mapsto> snd (map_table 65536 id (1000 :: nat) (WasmContext_init 4 () 1 8192))]"
proof -
  let ?a = "WasmContext_init 3 () 0 4096 :: (unit, nat) WasmContext"
  let ?b = "WasmContext_init 4 () 1 8192 :: (unit, nat) WasmContext"
  have "engine_state 65536 (id :: nat \<Rightarrow> nat) (id :: nat \<Rightarrow> nat) (Map.empty :: (unit, nat) registry)"
    by (rule engine_state.startup)
  moreover have "Create_Wasm_Context_For_ID (Map.empty :: (unit, nat) registry) 3 () 0 4096 = Inr (?a, [3 \<mapsto> ?a])"
    by (simp add: Create_absent)
  ultimately have "engine_state 65536 (id :: nat \<Rightarrow> nat) (id :: nat \<Rightarrow> nat) [3 \<mapsto> ?a]"
    by (rule engine_state.created)
  moreover have "Ensure_Wasm_Context_For_ID [3 \<mapsto> ?a] 4 () 1 8192 = ((?b, True), [3 \<mapsto> ?a, 4 \<mapsto> ?b])"
    by (simp add: Ensure_absent)
  ultimately have "engine_state 65536 (id :: nat \<Rightarrow> nat) (id :: nat \<Rightarrow> nat) [3 \<mapsto> ?a, 4 \<mapsto> ?b]"
    by (rule engine_state.ensured)
  moreover have "[3 \<mapsto> ?a, 4 \<mapsto> ?b] 4 = Some ?b" by simp
  ultimately have "engine_state 65536 (id :: nat \<Rightarrow> nat) (id :: nat \<Rightarrow> nat)
      ([3 \<mapsto> ?a, 4 \<mapsto> ?b](4 \<mapsto> call 65536 id id (Map_Table 1000) ?b))"
    by (rule engine_state.called)
  then show ?thesis by simp
qed

text \<open>
  C10. In every state of the engine, the key under which a context is registered equals the
  context's own \<^verbatim>\<open>id\<close>; so \<^verbatim>\<open>Dispose_Wasm_Context(const WasmContext &ctx)\<close>, which delegates
  to \<^verbatim>\<open>Dispose_Wasm_Context(ctx.id)\<close>, succeeds on a registered context and removes that
  context's entry and no other.
\<close>

theorem registry_key_is_context_id:
  "engine_state P tb ib contexts \<Longrightarrow> contexts k = Some ctx \<Longrightarrow>
     id' ctx = k \<and>
     Dispose_Wasm_Context_ref contexts ctx = Dispose_Wasm_Context contexts k \<and>
     Dispose_Wasm_Context_ref contexts ctx = Inr (contexts(k := None))"
proof -
  assume es: "engine_state P tb ib contexts" and at: "contexts k = Some ctx"
  then have key: "id' ctx = k" by (rule engine_state_key)
  from at have "Dispose_Wasm_Context contexts k = Inr (contexts(k := None))"
    by (rule Dispose_present)
  with key show ?thesis by (simp add: Dispose_Wasm_Context_ref_def)
qed

theorem registry_key_is_context_id_witness:
  "engine_state 65536 id id
     [3 \<mapsto> WasmContext_init 3 () 0 4096 :: (unit, nat) WasmContext,
      4 \<mapsto> snd (map_table 65536 id (1000 :: nat) (WasmContext_init 4 () 1 8192))] \<and>
   id' (snd (map_table 65536 id (1000 :: nat) (WasmContext_init 4 () 1 8192 :: (unit, nat) WasmContext))) = 4 \<and>
   Dispose_Wasm_Context_ref
     [3 \<mapsto> WasmContext_init 3 () 0 4096 :: (unit, nat) WasmContext,
      4 \<mapsto> snd (map_table 65536 id (1000 :: nat) (WasmContext_init 4 () 1 8192))]
     (snd (map_table 65536 id (1000 :: nat) (WasmContext_init 4 () 1 8192))) =
   Inr [3 \<mapsto> WasmContext_init 3 () 0 4096]"
proof -
  let ?a = "WasmContext_init 3 () 0 4096 :: (unit, nat) WasmContext"
  let ?b = "snd (map_table 65536 id (1000 :: nat) (WasmContext_init 4 () 1 8192 :: (unit, nat) WasmContext))"
  have upd: "[3 \<mapsto> ?a, 4 \<mapsto> ?b](4 := None) = ([3 \<mapsto> ?a] :: (unit, nat) registry)"
    by (rule ext) simp
  have at: "[3 \<mapsto> ?a, 4 \<mapsto> ?b] 4 = Some ?b" by simp
  note t = registry_key_is_context_id [OF two_contexts at]
  from t have k: "id' ?b = 4" by (rule conjunct1)
  from t have "Dispose_Wasm_Context_ref [3 \<mapsto> ?a, 4 \<mapsto> ?b] ?b = Inr ([3 \<mapsto> ?a, 4 \<mapsto> ?b](4 := None))"
    by (rule conjunct2 [THEN conjunct2])
  then have d: "Dispose_Wasm_Context_ref [3 \<mapsto> ?a, 4 \<mapsto> ?b] ?b = Inr [3 \<mapsto> ?a]"
    by (simp only: upd)
  show ?thesis by (rule conjI [OF two_contexts conjI [OF k d]])
qed

text \<open>
  C9, as stated, fails: the id is an \<^verbatim>\<open>unsigned\<close> and nothing rejects 0. Creating a context
  with id 0 in the empty registry succeeds, and the registered context's id is not positive.
\<close>

theorem context_id_zero_is_accepted:
  "Create_Wasm_Context_For_ID (Map.empty :: (unit, nat) registry) 0 () 0 WASM_MAX_MEMORY =
     Inr (WasmContext_init 0 () 0 WASM_MAX_MEMORY, [0 \<mapsto> WasmContext_init 0 () 0 WASM_MAX_MEMORY]) \<and>
   engine_state 65536 (id :: nat \<Rightarrow> nat) (id :: nat \<Rightarrow> nat)
     [0 \<mapsto> WasmContext_init 0 () 0 WASM_MAX_MEMORY :: (unit, nat) WasmContext] \<and>
   Has_Wasm_Context [0 \<mapsto> WasmContext_init 0 () 0 WASM_MAX_MEMORY :: (unit, nat) WasmContext] 0 \<and>
   \<not> 0 < unat (id' (WasmContext_init 0 () 0 WASM_MAX_MEMORY :: (unit, nat) WasmContext))"
proof -
  let ?w = "WasmContext_init 0 () 0 WASM_MAX_MEMORY :: (unit, nat) WasmContext"
  have c: "Create_Wasm_Context_For_ID (Map.empty :: (unit, nat) registry) 0 () 0 WASM_MAX_MEMORY =
      Inr (?w, [0 \<mapsto> ?w])"
    by (simp add: Create_absent)
  have "engine_state 65536 (id :: nat \<Rightarrow> nat) (id :: nat \<Rightarrow> nat) (Map.empty :: (unit, nat) registry)"
    by (rule engine_state.startup)
  then have e: "engine_state 65536 (id :: nat \<Rightarrow> nat) (id :: nat \<Rightarrow> nat) [0 \<mapsto> ?w]"
    using c by (rule engine_state.created)
  have h: "Has_Wasm_Context [0 \<mapsto> ?w] 0" by (simp add: Has_Wasm_Context_def)
  have z: "\<not> 0 < unat (id' ?w)" by (simp add: WasmContext_init_def)
  show ?thesis by (rule conjI [OF c conjI [OF e conjI [OF h z]]])
qed

text \<open>
  C9, amended. In every state of the engine the ids of the registered contexts are unique:
  contexts registered under different keys have different ids. An id may be used again after
  its context was disposed: disposing a registered id succeeds, and creating a context with
  that id afterwards succeeds and leads to a state of the engine again. The id 0 is accepted
  like any other id that is not registered.
\<close>

theorem live_context_ids:
  "engine_state P tb ib contexts \<Longrightarrow>
     (contexts k1 = Some c1 \<and> contexts k2 = Some c2 \<and> k1 \<noteq> k2 \<longrightarrow> id' c1 \<noteq> id' c2) \<and>
     (contexts k1 = Some c1 \<longrightarrow>
        Dispose_Wasm_Context contexts k1 = Inr (contexts(k1 := None)) \<and>
        Create_Wasm_Context_For_ID (contexts(k1 := None)) k1 p c s =
          Inr (WasmContext_init k1 p c s, contexts(k1 \<mapsto> WasmContext_init k1 p c s)) \<and>
        engine_state P tb ib (contexts(k1 \<mapsto> WasmContext_init k1 p c s))) \<and>
     (contexts 0 = None \<longrightarrow>
        Create_Wasm_Context_For_ID contexts 0 p c s =
          Inr (WasmContext_init 0 p c s, contexts(0 \<mapsto> WasmContext_init 0 p c s)) \<and>
        id' (WasmContext_init 0 p c s :: ('a, 'b) WasmContext) = 0)"
proof -
  assume es: "engine_state P tb ib contexts"
  have uniq: "contexts k1 = Some c1 \<and> contexts k2 = Some c2 \<and> k1 \<noteq> k2 \<longrightarrow> id' c1 \<noteq> id' c2"
  proof
    assume a: "contexts k1 = Some c1 \<and> contexts k2 = Some c2 \<and> k1 \<noteq> k2"
    from es a have "id' c1 = k1" by (simp add: engine_state_key)
    moreover from es a have "id' c2 = k2" by (simp add: engine_state_key)
    ultimately show "id' c1 \<noteq> id' c2" using a by simp
  qed
  have reuse: "contexts k1 = Some c1 \<longrightarrow>
        Dispose_Wasm_Context contexts k1 = Inr (contexts(k1 := None)) \<and>
        Create_Wasm_Context_For_ID (contexts(k1 := None)) k1 p c s =
          Inr (WasmContext_init k1 p c s, contexts(k1 \<mapsto> WasmContext_init k1 p c s)) \<and>
        engine_state P tb ib (contexts(k1 \<mapsto> WasmContext_init k1 p c s))"
  proof (intro impI)
    assume at: "contexts k1 = Some c1"
    then have d: "Dispose_Wasm_Context contexts k1 = Inr (contexts(k1 := None))"
      by (rule Dispose_present)
    have "(contexts(k1 := None)) k1 = None" by simp
    then have "Create_Wasm_Context_For_ID (contexts(k1 := None)) k1 p c s =
        Inr (WasmContext_init k1 p c s, (contexts(k1 := None))(k1 \<mapsto> WasmContext_init k1 p c s))"
      by (rule Create_absent)
    then have cr: "Create_Wasm_Context_For_ID (contexts(k1 := None)) k1 p c s =
        Inr (WasmContext_init k1 p c s, contexts(k1 \<mapsto> WasmContext_init k1 p c s))"
      by simp
    from es d have "engine_state P tb ib (contexts(k1 := None))"
      by (rule engine_state.disposed)
    then have "engine_state P tb ib (contexts(k1 \<mapsto> WasmContext_init k1 p c s))"
      using cr by (rule engine_state.created)
    with d cr show "Dispose_Wasm_Context contexts k1 = Inr (contexts(k1 := None)) \<and>
        Create_Wasm_Context_For_ID (contexts(k1 := None)) k1 p c s =
          Inr (WasmContext_init k1 p c s, contexts(k1 \<mapsto> WasmContext_init k1 p c s)) \<and>
        engine_state P tb ib (contexts(k1 \<mapsto> WasmContext_init k1 p c s))"
      by simp
  qed
  have zero: "contexts 0 = None \<longrightarrow>
        Create_Wasm_Context_For_ID contexts 0 p c s =
          Inr (WasmContext_init 0 p c s, contexts(0 \<mapsto> WasmContext_init 0 p c s)) \<and>
        id' (WasmContext_init 0 p c s :: ('a, 'b) WasmContext) = 0"
    by (simp add: Create_absent) (simp add: WasmContext_init_def)
  from uniq reuse zero show ?thesis by simp
qed

theorem live_context_ids_witness:
  "engine_state 65536 id id
     [3 \<mapsto> WasmContext_init 3 () 0 4096 :: (unit, nat) WasmContext,
      4 \<mapsto> snd (map_table 65536 id (1000 :: nat) (WasmContext_init 4 () 1 8192))] \<and>
   id' (WasmContext_init 3 () 0 4096 :: (unit, nat) WasmContext) \<noteq>
     id' (snd (map_table 65536 id (1000 :: nat) (WasmContext_init 4 () 1 8192 :: (unit, nat) WasmContext))) \<and>
   (Dispose_Wasm_Context
      [3 \<mapsto> WasmContext_init 3 () 0 4096 :: (unit, nat) WasmContext,
       4 \<mapsto> snd (map_table 65536 id (1000 :: nat) (WasmContext_init 4 () 1 8192))] 3 =
      Inr ([3 \<mapsto> WasmContext_init 3 () 0 4096,
            4 \<mapsto> snd (map_table 65536 id (1000 :: nat) (WasmContext_init 4 () 1 8192))](3 := None)) \<and>
    Create_Wasm_Context_For_ID
      ([3 \<mapsto> WasmContext_init 3 () 0 4096 :: (unit, nat) WasmContext,
        4 \<mapsto> snd (map_table 65536 id (1000 :: nat) (WasmContext_init 4 () 1 8192))](3 := None))
      3 () 1 8192 =
      Inr (WasmContext_init 3 () 1 8192,
           [3 \<mapsto> WasmContext_init 3 () 0 4096,
            4 \<mapsto> snd (map_table 65536 id (1000 :: nat) (WasmContext_init 4 () 1 8192))]
           (3 \<mapsto> WasmContext_init 3 () 1 8192)) \<and>
    engine_state 65536 id id
      ([3 \<mapsto> WasmContext_init 3 () 0 4096 :: (unit, nat) WasmContext,
        4 \<mapsto> snd (map_table 65536 id (1000 :: nat) (WasmContext_init 4 () 1 8192))]
       (3 \<mapsto> WasmContext_init 3 () 1 8192))) \<and>
   (Create_Wasm_Context_For_ID
      [3 \<mapsto> WasmContext_init 3 () 0 4096 :: (unit, nat) WasmContext,
       4 \<mapsto> snd (map_table 65536 id (1000 :: nat) (WasmContext_init 4 () 1 8192))]
      0 () 1 8192 =
      Inr (WasmContext_init 0 () 1 8192,
           [3 \<mapsto> WasmContext_init 3 () 0 4096,
            4 \<mapsto> snd (map_table 65536 id (1000 :: nat) (WasmContext_init 4 () 1 8192))]
           (0 \<mapsto> WasmContext_init 0 () 1 8192)) \<and>
    id' (WasmContext_init 0 () 1 8192 :: (unit, nat) WasmContext) = 0)"
proof -
  let ?a = "WasmContext_init 3 () 0 4096 :: (unit, nat) WasmContext"
  let ?b = "snd (map_table 65536 id (1000 :: nat) (WasmContext_init 4 () 1 8192 :: (unit, nat) WasmContext))"
  let ?r = "[3 \<mapsto> ?a, 4 \<mapsto> ?b]"
  note t = live_context_ids [OF two_contexts, of 3 ?a 4 ?b "()" 1 8192]
  have u: "id' ?a \<noteq> id' ?b"
    by (rule t [THEN conjunct1, THEN mp]) simp
  have r: "Dispose_Wasm_Context ?r 3 = Inr (?r(3 := None)) \<and>
      Create_Wasm_Context_For_ID (?r(3 := None)) 3 () 1 8192 =
        Inr (WasmContext_init 3 () 1 8192, ?r(3 \<mapsto> WasmContext_init 3 () 1 8192)) \<and>
      engine_state 65536 id id (?r(3 \<mapsto> WasmContext_init 3 () 1 8192))"
    by (rule t [THEN conjunct2, THEN conjunct1, THEN mp]) simp
  have z: "Create_Wasm_Context_For_ID ?r 0 () 1 8192 =
        Inr (WasmContext_init 0 () 1 8192, ?r(0 \<mapsto> WasmContext_init 0 () 1 8192)) \<and>
      id' (WasmContext_init 0 () 1 8192 :: (unit, nat) WasmContext) = 0"
    by (rule t [THEN conjunct2, THEN conjunct2, THEN mp]) simp
  show ?thesis by (rule conjI [OF two_contexts conjI [OF u conjI [OF r z]]])
qed

section \<open>The heap cursor\<close>





















section \<open>Address resolution in the example layout\<close>

lemma create_custom_pax_layout_value:
  "create_custom_pax_layout =
     Some \<lparr> num_tuples = 1000,
            root = Some (Group 256 0 524288
              [Group 256 0 8192 [Leaf (Get_Integer TY_Vector 4) 0 0 32],
               Group 256 8192 104448
                 [Leaf (Get_Char TY_Vector 50) 1 0 400, Leaf (Get_Boolean TY_Vector) 4 102400 8],
               Group 256 112640 24576
                 [Leaf (Get_Integer TY_Vector 4) 2 0 32, Leaf (Get_Double TY_Vector) 3 8192 64]]) \<rparr>"
  by (simp add: create_custom_pax_layout_def DataLayout_init_def add_inode_root_def
      add_inode_def add_leaf_def)

text \<open>
  C2. The layout of the example is built without a contract violation: it holds 1000 tuples
  and its root Group has capacity 256 and three sub-groups. Resolving attribute 0 (stride 32
  bits) for tuple 300 passes the root with outer block \<open>300 div 256 = 1\<close> and local index
  \<open>300 mod 256 = 44\<close>, then the group of the ids with outer block 0 and local index 44, and
  yields the base offset of the root's block 1 plus \<open>44 \<times> 32\<close> bits, which is bit 525696.
\<close>

theorem pax_example_resolution:
  "\<exists>cs. create_custom_pax_layout = Some \<lparr> num_tuples = 1000, root = Some (Group 256 0 (64 * 1024 * 8) cs) \<rparr> \<and>
         length cs = 3 \<and>
         resolve_address \<lparr> num_tuples = 1000, root = Some (Group 256 0 (64 * 1024 * 8) cs) \<rparr> 0 300 =
           Some ([(300 div 256, 300 mod 256), (0, 44)],
                 block_base (Group 256 0 (64 * 1024 * 8) cs) (300 div 256) + (300 mod 256) * 32) \<and>
         (300 :: nat) div 256 = 1 \<and> (300 :: nat) mod 256 = 44 \<and>
         block_base (Group 256 0 (64 * 1024 * 8) cs) 1 + 44 * 32 = 525696"
  by (simp add: create_custom_pax_layout_value resolve_address_def)

end
